theory Spec2Isabelle
  imports
    Main
    "HOL-Library.FSet"
    "HOL-Library.Multiset"
    "HOL-Library.Char_ord"
    "HOL-Library.List_Lexorder"
    "HOL-Library.Sublist"
    "HOL-Library.AList"
    "HOL-Library.Signed_Division"
    "HOL-Library.Word"
begin

section \<open>The transaction registry (\<open>TransMap\<close>)\<close>

text \<open>
  \<open>TransMap\<close> of \<open>metrics.go\<close>: the Go map \<open>map[string]struct{}\<close> is a finite set of
  names, the two capacities are Go \<open>int\<close>s (they are only stored and compared, never
  computed with, so they are unbounded integers here), and the mutex is left out: every
  method holds it from entry to return, so each method is one atomic step on the record.
\<close>

record TransMap =
  transactionNames :: "string fset"
  currCap :: int
  nextCap :: int
  overflow :: bool

definition NewTransMap :: "int \<Rightarrow> TransMap" where
  "NewTransMap cap =
     \<lparr>transactionNames = {||}, currCap = cap, nextCap = cap, overflow = False\<rparr>"

definition SetCap :: "TransMap \<Rightarrow> int \<Rightarrow> TransMap" where
  "SetCap t cap = t\<lparr>nextCap := cap\<rparr>"

definition Reset :: "TransMap \<Rightarrow> TransMap" where
  "Reset t = t\<lparr>transactionNames := {||}, currCap := nextCap t, overflow := False\<rparr>"

text \<open>\<open>IsWithinLimit\<close> returns the updated registry and the method's boolean result.\<close>

definition IsWithinLimit :: "TransMap \<Rightarrow> string \<Rightarrow> TransMap \<times> bool" where
  "IsWithinLimit t name =
     (if \<not> name |\<in>| transactionNames t then
        (if int (fcard (transactionNames t)) < currCap t
         then (t\<lparr>transactionNames := finsert name (transactionNames t)\<rparr>, True)
         else (t\<lparr>overflow := True\<rparr>, False))
      else (t, True))"

definition Overflow :: "TransMap \<Rightarrow> bool" where
  "Overflow t = overflow t"

text \<open>
  A caller of the registry issues the three mutating methods in some order; \<open>run\<close> applies
  such a sequence, discarding the boolean results.
\<close>

datatype TransMap_call = Call_IsWithinLimit string | Call_SetCap int | Call_Reset

fun call :: "TransMap \<Rightarrow> TransMap_call \<Rightarrow> TransMap" where
  "call t (Call_IsWithinLimit name) = fst (IsWithinLimit t name)"
| "call t (Call_SetCap cap) = SetCap t cap"
| "call t Call_Reset = Reset t"

fun run :: "TransMap \<Rightarrow> TransMap_call list \<Rightarrow> TransMap" where
  "run t [] = t"
| "run t (c # cs) = run (call t c) cs"

fun nonneg_SetCap :: "TransMap_call \<Rightarrow> bool" where
  "nonneg_SetCap (Call_SetCap cap) = (0 \<le> cap)"
| "nonneg_SetCap _ = True"

definition within_capacity :: "TransMap \<Rightarrow> bool" where
  "within_capacity t = (int (fcard (transactionNames t)) \<le> currCap t)"


section \<open>Strings, and deriving a transaction name from a path\<close>

text \<open>
  Go strings are byte sequences, as HOL's \<open>string\<close> is. \<open>strings_Split\<close> is Go's
  \<open>strings.Split\<close> for a separator of one byte (the only call in question passes \<open>"/"\<close>):
  the pieces between the separators, in order, with an empty piece before a leading,
  after a trailing and between two adjacent separators; a string without the separator
  (the empty string too) gives one piece. \<open>strings_Join\<close> is \<open>strings.Join\<close>.
\<close>

fun strings_Split :: "string \<Rightarrow> char \<Rightarrow> string list" where
  "strings_Split [] sep = [[]]"
| "strings_Split (c # s) sep =
     (if c = sep then [] # strings_Split s sep
      else (case strings_Split s sep of
              [] \<Rightarrow> [[c]]
            | w # ws \<Rightarrow> (c # w) # ws))"

fun strings_Join :: "string list \<Rightarrow> string \<Rightarrow> string" where
  "strings_Join [] sep = []"
| "strings_Join [w] sep = w"
| "strings_Join (w # ws) sep = w @ sep @ strings_Join ws sep"

text \<open>\<open>strconv.Itoa\<close>: the decimal digits, with a minus sign for a negative number.\<close>

fun Itoa_digits :: "nat \<Rightarrow> string" where
  "Itoa_digits n =
     (if n < 10 then [char_of (48 + n)]
      else Itoa_digits (n div 10) @ [char_of (48 + n mod 10)])"

declare Itoa_digits.simps [simp del]

definition strconv_Itoa :: "int \<Rightarrow> string" where
  "strconv_Itoa i = (if i < 0 then ''-'' @ Itoa_digits (nat (- i)) else Itoa_digits (nat i))"



definition maxPathLenForTransactionName :: nat where
  "maxPathLenForTransactionName = 3"

definition GetTransactionFromPath :: "string \<Rightarrow> string" where
  "GetTransactionFromPath path =
     (if path = '''' \<or> path = ''/'' then ''/''
      else
        (let p = strings_Split path CHR ''/'';
             lp = length p;
             lp = (if lp > maxPathLenForTransactionName
                   then maxPathLenForTransactionName else lp)
         in strings_Join (take lp p) ''/''))"


section \<open>Measurements\<close>

text \<open>
  A Go \<open>map[string]string\<close> of tags is an association list with distinct keys; the order
  of the list stands for the order in which a \<open>range\<close> loop visits the entries, which Go
  leaves unspecified. \<open>Count\<close> is a Go \<open>int\<close> and is only added to. \<open>Sum\<close> is a
  \<open>float64\<close>: its type \<open>'f\<close> is left open, with an addition and a zero about which
  nothing is assumed. The table of measurements is the Go map from identity strings to
  entries; every entry is allocated by \<open>recordMeasurement\<close> and reachable from one key
  only, so the pointers are replaced by the values.
\<close>

type_synonym tagmap = "(string \<times> string) list"







section \<open>Histograms\<close>

text \<open>
  The package \<open>hdrhist\<close> is not among the sources at hand. Its three functions that
  \<open>metrics.go\<close> calls are taken as parameters, collected in a record: \<open>WithConfig\<close>
  makes an empty histogram of type \<open>'h\<close>, \<open>Record\<close> gives the histogram with one more
  value or panics (\<open>Inl\<close> carries the panic's message, and the histogram is then taken
  to be as it was), \<open>EncodeCompressed\<close> gives the encoded text or an error.
\<close>

record Config =
  LowestDiscernible :: int
  HighestTrackable :: int
  SigFigs :: int

record 'h hdrhist =
  WithConfig :: "Config \<Rightarrow> 'h"
  Record :: "'h \<Rightarrow> int \<Rightarrow> string + 'h"
  EncodeCompressed :: "'h \<Rightarrow> string + string"

record 'h histogram =
  hist :: 'h
  tags :: tagmap

record 'h histograms =
  histograms :: "string \<rightharpoonup> 'h histogram"
  precision :: int

definition int32 :: "int \<Rightarrow> int" where
  "int32 n = sint (word_of_int n :: 32 word)"

definition time_Microsecond :: int where
  "time_Microsecond = 1000"

text \<open>
  \<open>recordHistogram\<close> returns the collection and the lines it logged. A
  \<open>time.Duration\<close> is a signed count of nanoseconds; Go's \<open>/\<close> on integers truncates
  towards zero, which is \<open>sdiv\<close>. The entry is put into the collection before \<open>Record\<close>
  is called, so it stays there when \<open>Record\<close> panics and the deferred function
  recovers.
\<close>

definition recordHistogram ::
  "'h hdrhist \<Rightarrow> 'h histograms \<Rightarrow> string \<Rightarrow> int \<Rightarrow> 'h histograms \<times> string list" where
  "recordHistogram pkg hi name duration =
     (let id = name;
          tags = (if name \<noteq> '''' then [(''TransactionName'', name)] else []);
          (h, hs) =
            (case histograms hi id of
               None \<Rightarrow>
                 (let h = \<lparr>hist = WithConfig pkg
                                     \<lparr>LowestDiscernible = 1, HighestTrackable = 3600000000,
                                      SigFigs = int32 (precision hi)\<rparr>,
                           tags = tags\<rparr>
                  in (h, (histograms hi)(id \<mapsto> h)))
             | Some h \<Rightarrow> (h, histograms hi))
      in case Record pkg (hist h) (duration sdiv time_Microsecond) of
           Inl err \<Rightarrow> (hi\<lparr>histograms := hs\<rparr>, [''Failed to record histogram: '' @ err])
         | Inr h' \<Rightarrow> (hi\<lparr>histograms := hs(id \<mapsto> h\<lparr>hist := h'\<rparr>)\<rparr>, []))"

text \<open>
  The entry that \<open>recordHistogram\<close> records into: the one stored under the name, or the
  new one it creates (the same lines of \<open>recordHistogram\<close>, for stating its result).
\<close>

definition recordHistogram_entry :: "'h hdrhist \<Rightarrow> 'h histograms \<Rightarrow> string \<Rightarrow> 'h histogram" where
  "recordHistogram_entry pkg hi name =
     (case histograms hi name of
        None \<Rightarrow>
          \<lparr>hist = WithConfig pkg
                    \<lparr>LowestDiscernible = 1, HighestTrackable = 3600000000,
                     SigFigs = int32 (precision hi)\<rparr>,
           tags = (if name \<noteq> '''' then [(''TransactionName'', name)] else [])\<rparr>
      | Some h \<Rightarrow> h)"

text \<open>
  Modelled from the spec: a histogram of the package \<open>hdrhist\<close>, which is not among the
  sources at hand, as its configuration and the values recorded so far, in microseconds
  and in the order of recording. Recording a value above the highest trackable value
  of the configuration fails (3, 4.4) with the message that the test of
  \<open>recordHistogram\<close> expects, and leaves the histogram as it was. The encoding is opaque
  text and may fail; when it fails is not said, so the encoder is a parameter.
\<close>

definition values_hdrhist ::
  "(Config \<times> int list \<Rightarrow> string + string) \<Rightarrow> (Config \<times> int list) hdrhist" where
  "values_hdrhist enc =
     \<lparr>WithConfig = (\<lambda>cfg. (cfg, [])),
      Record = (\<lambda>h v. if v > HighestTrackable (fst h) then Inl ''value to large''
                        else Inr (fst h, snd h @ [v])),
      EncodeCompressed = enc\<rparr>"

text \<open>
  An encoder for the examples below: it refuses a histogram whose precision is not one
  of 0 to 5, and otherwise gives the recorded values in decimal.
\<close>

definition example_encoder :: "Config \<times> int list \<Rightarrow> string + string" where
  "example_encoder h =
     (if SigFigs (fst h) < 0 \<or> 5 < SigFigs (fst h) then Inl ''precision out of range''
      else Inr (concat (map (\<lambda>v. strconv_Itoa v @ '';'') (snd h))))"

definition metricsHistPrecisionDefault :: int where
  "metricsHistPrecisionDefault = 2"


text \<open>The collection \<open>metricsHTTPHistograms\<close> as it is initialised.\<close>

definition metricsHTTPHistograms_init :: "'h histograms" where
  "metricsHTTPHistograms_init =
     \<lparr>histograms = Map.empty, precision = metricsHistPrecisionDefault\<rparr>"


section \<open>Processing a span message\<close>









section \<open>Writing histograms into the outgoing message\<close>












section \<open>Statistics of the event queue\<close>

text \<open>
  The five counters are \<open>int64\<close>. \<open>copyAndReset\<close> swaps each of them with zero by an
  atomic operation of its own; the model is the call running alone.
\<close>

record eventQueueStats =
  numSent :: "64 word"
  numOverflowed :: "64 word"
  numFailed :: "64 word"
  totalEvents :: "64 word"
  queueLargest :: "64 word"

definition copyAndReset :: "eventQueueStats \<Rightarrow> eventQueueStats \<times> eventQueueStats" where
  "copyAndReset s =
     (let c = \<lparr>numSent = 0, numOverflowed = 0, numFailed = 0, totalEvents = 0,
                queueLargest = 0\<rparr>;
          c = c\<lparr>numSent := numSent s\<rparr>; s = s\<lparr>numSent := 0\<rparr>;
          c = c\<lparr>numFailed := numFailed s\<rparr>; s = s\<lparr>numFailed := 0\<rparr>;
          c = c\<lparr>totalEvents := totalEvents s\<rparr>; s = s\<lparr>totalEvents := 0\<rparr>;
          c = c\<lparr>numOverflowed := numOverflowed s\<rparr>; s = s\<lparr>numOverflowed := 0\<rparr>;
          c = c\<lparr>queueLargest := queueLargest s\<rparr>; s = s\<lparr>queueLargest := 0\<rparr>
      in (c, s))"


section \<open>Properties of the transaction registry\<close>

lemma call_preserves:
  assumes "within_capacity t" "0 \<le> nextCap t" "nonneg_SetCap c"
  shows "within_capacity (call t c) \<and> 0 \<le> nextCap (call t c)"
proof (cases c)
  case (Call_IsWithinLimit name)
  then show ?thesis
    using assms
    by (auto simp: within_capacity_def IsWithinLimit_def fcard_finsert_if)
next
  case (Call_SetCap cap)
  then show ?thesis
    using assms by (simp add: within_capacity_def SetCap_def)
next
  case Call_Reset
  then show ?thesis
    using assms by (simp add: within_capacity_def Reset_def fcard_fempty)
qed

lemma run_preserves:
  "within_capacity t \<Longrightarrow> 0 \<le> nextCap t \<Longrightarrow> list_all nonneg_SetCap cs
   \<Longrightarrow> within_capacity (run t cs) \<and> 0 \<le> nextCap (run t cs)"
proof (induction cs arbitrary: t)
  case Nil
  then show ?case by simp
next
  case (Cons c cs)
  from Cons.prems have "within_capacity (call t c) \<and> 0 \<le> nextCap (call t c)"
    by (simp add: call_preserves)
  with Cons.IH [of "call t c"] Cons.prems show ?case by simp
qed

text \<open>
  C1. Admission contract of \<open>IsWithinLimit\<close>: a name already registered is accepted and
  nothing changes; a new name is registered and accepted when the number of registered
  names is strictly below the current capacity, the overflow flag keeping its value; in
  the remaining case the call is refused, the overflow flag is set and the name is not
  registered. With capacity 3: \<open>t1\<close>, \<open>t2\<close>, \<open>t3\<close> are accepted and the flag stays false,
  \<open>t4\<close> is refused and the flag is set, \<open>t2\<close> is accepted again with the flag still set,
  and \<open>Reset\<close> clears the flag and empties the set.
\<close>

theorem C1_admission_contract:
  "(name |\<in>| transactionNames t \<longrightarrow>
      snd (IsWithinLimit t name) \<and> fst (IsWithinLimit t name) = t)
   \<and> (\<not> name |\<in>| transactionNames t \<and> int (fcard (transactionNames t)) < currCap t \<longrightarrow>
      snd (IsWithinLimit t name)
      \<and> transactionNames (fst (IsWithinLimit t name)) = finsert name (transactionNames t)
      \<and> overflow (fst (IsWithinLimit t name)) = overflow t)
   \<and> (\<not> name |\<in>| transactionNames t \<and> \<not> int (fcard (transactionNames t)) < currCap t \<longrightarrow>
      \<not> snd (IsWithinLimit t name)
      \<and> overflow (fst (IsWithinLimit t name))
      \<and> transactionNames (fst (IsWithinLimit t name)) = transactionNames t)
   \<and> (let m0 = NewTransMap 3;
           (m1, r1) = IsWithinLimit m0 ''t1'';
           (m2, r2) = IsWithinLimit m1 ''t2'';
           (m3, r3) = IsWithinLimit m2 ''t3'';
           (m4, r4) = IsWithinLimit m3 ''t4'';
           (m5, r5) = IsWithinLimit m4 ''t2'';
           m6 = Reset m5
       in r1 \<and> r2 \<and> r3 \<and> \<not> Overflow m3
          \<and> \<not> r4 \<and> Overflow m4
          \<and> r5 \<and> Overflow m5
          \<and> \<not> Overflow m6 \<and> transactionNames m6 = {||})"
proof (intro conjI)
  show "let m0 = NewTransMap 3;
           (m1, r1) = IsWithinLimit m0 ''t1'';
           (m2, r2) = IsWithinLimit m1 ''t2'';
           (m3, r3) = IsWithinLimit m2 ''t3'';
           (m4, r4) = IsWithinLimit m3 ''t4'';
           (m5, r5) = IsWithinLimit m4 ''t2'';
           m6 = Reset m5
       in r1 \<and> r2 \<and> r3 \<and> \<not> Overflow m3
          \<and> \<not> r4 \<and> Overflow m4
          \<and> r5 \<and> Overflow m5
          \<and> \<not> Overflow m6 \<and> transactionNames m6 = {||}"
    by (simp add: NewTransMap_def IsWithinLimit_def Reset_def Overflow_def
        fcard_finsert_if fcard_fempty)
qed (simp_all add: IsWithinLimit_def)

theorem C1_admission_contract_witness:
  "(let t = \<lparr>transactionNames = {|''t1''|}, currCap = 2, nextCap = 2, overflow = False\<rparr>
    in ''t1'' |\<in>| transactionNames t
       \<and> snd (IsWithinLimit t ''t1'') \<and> fst (IsWithinLimit t ''t1'') = t
       \<and> \<not> ''t2'' |\<in>| transactionNames t \<and> int (fcard (transactionNames t)) < currCap t
       \<and> snd (IsWithinLimit t ''t2'')
       \<and> transactionNames (fst (IsWithinLimit t ''t2'')) = {|''t2'', ''t1''|}
       \<and> \<not> overflow (fst (IsWithinLimit t ''t2'')))
   \<and> (let u = \<lparr>transactionNames = {|''t1''|}, currCap = 1, nextCap = 1, overflow = False\<rparr>
      in \<not> ''t2'' |\<in>| transactionNames u \<and> \<not> int (fcard (transactionNames u)) < currCap u
         \<and> \<not> snd (IsWithinLimit u ''t2'')
         \<and> overflow (fst (IsWithinLimit u ''t2''))
         \<and> transactionNames (fst (IsWithinLimit u ''t2'')) = {|''t1''|})"
  using
    C1_admission_contract
      [of "''t1''" "\<lparr>transactionNames = {|''t1''|}, currCap = 2, nextCap = 2, overflow = False\<rparr>"]
    C1_admission_contract
      [of "''t2''" "\<lparr>transactionNames = {|''t1''|}, currCap = 2, nextCap = 2, overflow = False\<rparr>"]
    C1_admission_contract
      [of "''t2''" "\<lparr>transactionNames = {|''t1''|}, currCap = 1, nextCap = 1, overflow = False\<rparr>"]
  by (simp add: fcard_finsert_if fcard_fempty)

section \<open>Properties of the derivation of transaction names\<close>

lemma Split_not_Nil: "strings_Split s c \<noteq> []"
  by (induction s) (auto split: list.splits)

lemma Split_no_sep: "w \<in> set (strings_Split s c) \<Longrightarrow> c \<notin> set w"
proof (induction s arbitrary: w)
  case Nil
  then show ?case by simp
next
  case (Cons x s)
  then show ?case
    by (cases "strings_Split s c") (auto simp: Split_not_Nil split: if_splits)
qed

lemma Join_Split: "strings_Join (strings_Split s c) [c] = s"
proof (induction s)
  case Nil
  then show ?case by simp
next
  case (Cons x s)
  obtain w ws where ws: "strings_Split s c = w # ws"
    using Split_not_Nil [of s c] by (cases "strings_Split s c") auto
  show ?case
  proof (cases "x = c")
    case True
    with Cons ws show ?thesis by simp
  next
    case False
    with Cons ws show ?thesis by (cases ws) auto
  qed
qed

lemma Split_Join:
  "ws \<noteq> [] \<Longrightarrow> \<forall>w \<in> set ws. c \<notin> set w \<Longrightarrow> strings_Split (strings_Join ws [c]) c = ws"
proof (induction ws "[c]" rule: strings_Join.induct)
  case 1
  then show ?case by simp
next
  case (2 w)
  have "c \<notin> set w \<Longrightarrow> strings_Split w c = [w]"
    by (induction w) auto
  with 2 show ?case by simp
next
  case (3 w v vs)
  have step: "c \<notin> set w \<Longrightarrow> strings_Split (w @ c # r) c = w # strings_Split r c" for r
    by (induction w) auto
  from 3 show ?case by (simp add: step)
qed

lemma Join_take_prefix: "prefix (strings_Join (take n ws) sep) (strings_Join ws sep)"
proof (induction ws sep arbitrary: n rule: strings_Join.induct)
  case (1 sep)
  then show ?case by simp
next
  case (2 w sep)
  then show ?case by (cases n) simp_all
next
  case (3 w v vs sep)
  show ?case
  proof (cases n)
    case 0
    then show ?thesis by simp
  next
    case (Suc m)
    show ?thesis
    proof (cases m)
      case 0
      with Suc show ?thesis by simp
    next
      case (Suc k)
      with \<open>n = Suc m\<close> 3 [of m] show ?thesis by simp
    qed
  qed
qed

text \<open>
  C2, as stated, fails: for the path \<open>/a/b/c/d#frag\<close> the result is not \<open>/a/b/c\<close>.
\<close>

theorem C2_counterexample: "GetTransactionFromPath ''/a/b/c/d#frag'' \<noteq> ''/a/b/c''"
  by (simp add: GetTransactionFromPath_def maxPathLenForTransactionName_def)

text \<open>
  C2, amended. \<open>GetTransactionFromPath\<close> keeps at most the first 3 pieces of the path
  split at \<open>/\<close>, and the empty piece before a leading \<open>/\<close> is one of them: the
  empty path and the root path give \<open>/\<close>, the path \<open>/a/b/c/d#frag\<close> gives \<open>/a/b\<close>,
  and for every path but the empty one the result is a prefix of the path whose pieces
  are the first 3 pieces of the path (all of them when there are fewer).
\<close>

theorem C2_first_three_pieces:
  "GetTransactionFromPath '''' = ''/''
   \<and> GetTransactionFromPath ''/'' = ''/''
   \<and> GetTransactionFromPath ''/a/b/c/d#frag'' = ''/a/b''
   \<and> (path \<noteq> '''' \<longrightarrow>
        strings_Split (GetTransactionFromPath path) CHR ''/''
          = take 3 (strings_Split path CHR ''/'')
        \<and> prefix (GetTransactionFromPath path) path)"
proof (intro conjI impI)
  assume ne: "path \<noteq> ''''"
  let ?p = "strings_Split path CHR ''/''"
  have eq: "GetTransactionFromPath path = strings_Join (take 3 ?p) ''/''"
  proof (cases "path = ''/''")
    case True
    then show ?thesis by (simp add: GetTransactionFromPath_def)
  next
    case False
    with ne show ?thesis
      by (simp add: GetTransactionFromPath_def maxPathLenForTransactionName_def Let_def)
  qed
  have "take 3 ?p \<noteq> []"
    using Split_not_Nil [of path "CHR ''/''"] by simp
  moreover have "\<forall>w \<in> set (take 3 ?p). CHR ''/'' \<notin> set w"
    using Split_no_sep [of _ path "CHR ''/''"] by (auto dest: in_set_takeD)
  ultimately show "strings_Split (GetTransactionFromPath path) CHR ''/'' = take 3 ?p"
    unfolding eq by (rule Split_Join)
  show "prefix (GetTransactionFromPath path) path"
    using Join_take_prefix [of 3 ?p "''/''"] Join_Split [of path "CHR ''/''"]
    by (simp add: eq)
qed (simp_all add: GetTransactionFromPath_def maxPathLenForTransactionName_def)

text \<open>The amended C2 at the path \<open>/x/y/z/w\<close>.\<close>

theorem C2_first_three_pieces_witness:
  "''/x/y/z/w'' \<noteq> ''''
   \<and> strings_Split (GetTransactionFromPath ''/x/y/z/w'') CHR ''/'' = ['''', ''x'', ''y'']
   \<and> prefix (GetTransactionFromPath ''/x/y/z/w'') ''/x/y/z/w''"
  using C2_first_three_pieces [of "''/x/y/z/w''"] by simp

section \<open>Properties of the registry under sequences of calls\<close>

text \<open>
  C5, as stated, fails: after \<open>SetCap (-1)\<close> and \<open>Reset\<close> on a registry created with
  capacity 0, the number of registered names, 0, exceeds the current capacity, -1.
\<close>

theorem C5_counterexample:
  "\<not> within_capacity (run (NewTransMap 0) [Call_SetCap (- 1), Call_Reset])"
  by (simp add: within_capacity_def NewTransMap_def SetCap_def Reset_def fcard_fempty)

text \<open>
  C5, amended. Starting from a registry created with a non-negative capacity, after
  every sequence of \<open>IsWithinLimit\<close>, \<open>SetCap\<close> and \<open>Reset\<close> calls in which every
  \<open>SetCap\<close> is given a non-negative capacity, and after every initial part of it, the
  number of registered names does not exceed the current capacity.
\<close>

theorem C5_bounded_cardinality:
  assumes "0 \<le> cap" and "list_all nonneg_SetCap cs"
  shows "within_capacity (run (NewTransMap cap) (take n cs))"
proof -
  have "within_capacity (NewTransMap cap)" "0 \<le> nextCap (NewTransMap cap)"
    using assms(1) by (simp_all add: within_capacity_def NewTransMap_def fcard_fempty)
  moreover have "list_all nonneg_SetCap (take n cs)"
    using assms(2) by (auto simp: list_all_iff dest: in_set_takeD)
  ultimately show ?thesis
    using run_preserves by blast
qed

text \<open>The amended C5 at a sequence of five calls that fills, restages and resets.\<close>

theorem C5_bounded_cardinality_witness:
  "(0::int) \<le> 1
   \<and> list_all nonneg_SetCap
        [Call_IsWithinLimit ''a'', Call_IsWithinLimit ''b'', Call_SetCap 0, Call_Reset,
         Call_IsWithinLimit ''c'']
   \<and> within_capacity
        (run (NewTransMap 1)
           (take 5 [Call_IsWithinLimit ''a'', Call_IsWithinLimit ''b'', Call_SetCap 0,
                    Call_Reset, Call_IsWithinLimit ''c'']))"
  using C5_bounded_cardinality
    [of 1 "[Call_IsWithinLimit ''a'', Call_IsWithinLimit ''b'', Call_SetCap 0, Call_Reset,
            Call_IsWithinLimit ''c'']" 5]
  by simp

text \<open>
  C6. \<open>SetCap n\<close> stores \<open>n\<close> in \<open>nextCap\<close> and nothing else: the registered names,
  the current capacity and the overflow flag stay as they are, and the next admission
  decides as it would have without the call; \<open>Reset\<close> then makes \<open>n\<close> the current
  capacity, empties the set and clears the flag.
\<close>

theorem C6_deferred_capacity:
  "nextCap (SetCap t n) = n
   \<and> transactionNames (SetCap t n) = transactionNames t
   \<and> currCap (SetCap t n) = currCap t
   \<and> overflow (SetCap t n) = overflow t
   \<and> snd (IsWithinLimit (SetCap t n) name) = snd (IsWithinLimit t name)
   \<and> fst (IsWithinLimit (SetCap t n) name) = SetCap (fst (IsWithinLimit t name)) n
   \<and> currCap (fst (IsWithinLimit (SetCap t n) name)) = currCap t
   \<and> currCap (Reset (SetCap t n)) = n
   \<and> transactionNames (Reset (SetCap t n)) = {||}
   \<and> \<not> overflow (Reset (SetCap t n))"
  by (simp add: SetCap_def IsWithinLimit_def Reset_def)

section \<open>Properties of the statistics of the event queue\<close>

text \<open>
  C7. \<open>copyAndReset\<close> returns a copy holding the values the five counters had, and
  leaves each of the five counters at zero.
\<close>

theorem C7_copyAndReset:
  "fst (copyAndReset s) = s
   \<and> snd (copyAndReset s)
       = \<lparr>numSent = 0, numOverflowed = 0, numFailed = 0, totalEvents = 0, queueLargest = 0\<rparr>
   \<and> numSent (snd (copyAndReset s)) = 0
   \<and> numOverflowed (snd (copyAndReset s)) = 0
   \<and> numFailed (snd (copyAndReset s)) = 0
   \<and> totalEvents (snd (copyAndReset s)) = 0
   \<and> queueLargest (snd (copyAndReset s)) = 0"
  by (simp add: copyAndReset_def)

section \<open>Properties of the identity of measurements\<close>









section \<open>Properties of recording into a histogram\<close>

lemma recordHistogram_Inr:
  assumes "Record pkg (hist (recordHistogram_entry pkg hi name)) (d sdiv 1000) = Inr h'"
  shows "recordHistogram pkg hi name d
     = (hi\<lparr>histograms :=
              (histograms hi)(name \<mapsto> (recordHistogram_entry pkg hi name)\<lparr>hist := h'\<rparr>)\<rparr>, [])"
  using assms
  by (cases "histograms hi name")
     (simp_all add: recordHistogram_def recordHistogram_entry_def time_Microsecond_def Let_def)

lemma recordHistogram_Inl:
  assumes "Record pkg (hist (recordHistogram_entry pkg hi name)) (d sdiv 1000) = Inl err"
  shows "recordHistogram pkg hi name d
     = (hi\<lparr>histograms := (histograms hi)(name \<mapsto> recordHistogram_entry pkg hi name)\<rparr>,
        [''Failed to record histogram: '' @ err])"
  using assms
  by (cases "histograms hi name")
     (auto simp add: recordHistogram_def recordHistogram_entry_def time_Microsecond_def Let_def
        fun_upd_idem)

lemma sdiv_nonneg: "0 \<le> d \<Longrightarrow> d sdiv 1000 = d div (1000::int)"
  by (simp add: signed_divide_int_def sgn_if)

lemma sdiv_small: "- 1000 < d \<Longrightarrow> d < 1000 \<Longrightarrow> d sdiv (1000::int) = 0"
  by (simp add: signed_divide_int_def sgn_if)

text \<open>
  C10, as stated, fails. For a negative duration: -1500 ns is shorter than one
  microsecond and its floor in microseconds is -2, yet the value handed to the histogram
  is -1, neither 0 nor the floor. For a duration above the trackable range (the one of
  the test of \<open>recordHistogram\<close>): nothing is recorded, the new entry stays without
  values and the failure is logged.
\<close>

theorem C10_counterexample:
  "map_option hist
     (histograms
        (fst (recordHistogram (values_hdrhist example_encoder) metricsHTTPHistograms_init
                '''' (- 1500)))
        '''')
     = Some (\<lparr>LowestDiscernible = 1, HighestTrackable = 3600000000, SigFigs = 2\<rparr>, [- 1])
   \<and> (- 1500 :: int) < 1000
   \<and> (- 1500 :: int) div 1000 = - 2
   \<and> recordHistogram (values_hdrhist example_encoder) metricsHTTPHistograms_init
        ''hist2'' 4531224545454563
     = (metricsHTTPHistograms_init
          \<lparr>histograms :=
             [''hist2'' \<mapsto>
                \<lparr>hist = (\<lparr>LowestDiscernible = 1, HighestTrackable = 3600000000,
                          SigFigs = 2\<rparr>, []),
                 tags = [(''TransactionName'', ''hist2'')]\<rparr>]\<rparr>,
        [''Failed to record histogram: value to large''])"
  by (simp add: recordHistogram_def values_hdrhist_def metricsHTTPHistograms_init_def
      metricsHistPrecisionDefault_def time_Microsecond_def int32_def Let_def
      signed_divide_int_def)

text \<open>
  C10, amended. \<open>recordHistogram\<close> hands the duration divided by 1000, truncated towards
  zero, to the histogram, and keeps what \<open>Record\<close> makes of it in the entry under the
  name: for a duration \<open>d \<ge> 0\<close> the value is the floor of \<open>d / 1000\<close>, and for a duration
  of less than one microsecond in absolute value it is exactly 0, still given to
  \<open>Record\<close>. With the histogram of values, a new entry then holds just that value: 0 for
  a non-negative duration below one microsecond, the floor of \<open>d / 1000\<close> for a
  non-negative duration within the trackable range.
\<close>

theorem C10_truncating_conversion:
  "(Record pkg (hist (recordHistogram_entry pkg hi name)) (d sdiv 1000) = Inr h' \<longrightarrow>
      recordHistogram pkg hi name d
        = (hi\<lparr>histograms :=
                 (histograms hi)(name \<mapsto> (recordHistogram_entry pkg hi name)\<lparr>hist := h'\<rparr>)\<rparr>,
           []))
   \<and> (0 \<le> d \<and> Record pkg (hist (recordHistogram_entry pkg hi name)) (d div 1000) = Inr h' \<longrightarrow>
      recordHistogram pkg hi name d
        = (hi\<lparr>histograms :=
                 (histograms hi)(name \<mapsto> (recordHistogram_entry pkg hi name)\<lparr>hist := h'\<rparr>)\<rparr>,
           []))
   \<and> (- 1000 < d \<and> d < 1000
        \<and> Record pkg (hist (recordHistogram_entry pkg hi name)) 0 = Inr h' \<longrightarrow>
      recordHistogram pkg hi name d
        = (hi\<lparr>histograms :=
                 (histograms hi)(name \<mapsto> (recordHistogram_entry pkg hi name)\<lparr>hist := h'\<rparr>)\<rparr>,
           []))
   \<and> (0 \<le> d \<and> d < 1000 \<and> histograms hi name = None \<longrightarrow>
      map_option (snd \<circ> hist)
        (histograms (fst (recordHistogram (values_hdrhist enc) hi name d)) name) = Some [0])
   \<and> (0 \<le> d \<and> d div 1000 \<le> 3600000000 \<and> histograms hi name = None \<longrightarrow>
      map_option (snd \<circ> hist)
        (histograms (fst (recordHistogram (values_hdrhist enc) hi name d)) name)
        = Some [d div 1000])"
proof (intro conjI impI)
  assume "Record pkg (hist (recordHistogram_entry pkg hi name)) (d sdiv 1000) = Inr h'"
  then show "recordHistogram pkg hi name d
     = (hi\<lparr>histograms :=
              (histograms hi)(name \<mapsto> (recordHistogram_entry pkg hi name)\<lparr>hist := h'\<rparr>)\<rparr>, [])"
    by (rule recordHistogram_Inr)
next
  assume "0 \<le> d \<and> Record pkg (hist (recordHistogram_entry pkg hi name)) (d div 1000) = Inr h'"
  then have "Record pkg (hist (recordHistogram_entry pkg hi name)) (d sdiv 1000) = Inr h'"
    by (simp add: sdiv_nonneg)
  then show "recordHistogram pkg hi name d
     = (hi\<lparr>histograms :=
              (histograms hi)(name \<mapsto> (recordHistogram_entry pkg hi name)\<lparr>hist := h'\<rparr>)\<rparr>, [])"
    by (rule recordHistogram_Inr)
next
  assume "- 1000 < d \<and> d < 1000
     \<and> Record pkg (hist (recordHistogram_entry pkg hi name)) 0 = Inr h'"
  then have "Record pkg (hist (recordHistogram_entry pkg hi name)) (d sdiv 1000) = Inr h'"
    by (simp add: sdiv_small)
  then show "recordHistogram pkg hi name d
     = (hi\<lparr>histograms :=
              (histograms hi)(name \<mapsto> (recordHistogram_entry pkg hi name)\<lparr>hist := h'\<rparr>)\<rparr>, [])"
    by (rule recordHistogram_Inr)
next
  assume a: "0 \<le> d \<and> d div 1000 \<le> 3600000000 \<and> histograms hi name = None"
  let ?e = "recordHistogram_entry (values_hdrhist enc) hi name"
  from a have "Record (values_hdrhist enc) (hist ?e) (d sdiv 1000)
      = Inr (fst (hist ?e), [d div 1000])"
    by (simp add: sdiv_nonneg recordHistogram_entry_def values_hdrhist_def)
  then show "map_option (snd \<circ> hist)
        (histograms (fst (recordHistogram (values_hdrhist enc) hi name d)) name)
        = Some [d div 1000]"
    by (simp add: recordHistogram_Inr)
next
  assume a: "0 \<le> d \<and> d < 1000 \<and> histograms hi name = None"
  let ?e = "recordHistogram_entry (values_hdrhist enc) hi name"
  from a have "Record (values_hdrhist enc) (hist ?e) (d sdiv 1000)
      = Inr (fst (hist ?e), [0])"
    by (simp add: sdiv_small recordHistogram_entry_def values_hdrhist_def)
  then show "map_option (snd \<circ> hist)
        (histograms (fst (recordHistogram (values_hdrhist enc) hi name d)) name)
        = Some [0]"
    by (simp add: recordHistogram_Inr)
qed

text \<open>
  The amended C10 at the durations 123 ns and 1554 ns, recorded into the empty
  collection.
\<close>

theorem C10_truncating_conversion_witness:
  "Record (values_hdrhist example_encoder)
     (hist (recordHistogram_entry (values_hdrhist example_encoder)
              metricsHTTPHistograms_init ''''))
     (1554 sdiv 1000)
     = Inr (\<lparr>LowestDiscernible = 1, HighestTrackable = 3600000000, SigFigs = 2\<rparr>, [1])
   \<and> snd (recordHistogram (values_hdrhist example_encoder) metricsHTTPHistograms_init
            '''' 1554) = []
   \<and> (0::int) \<le> 123 \<and> (123::int) < 1000
   \<and> histograms (metricsHTTPHistograms_init :: (Config \<times> int list) histograms) '''' = None
   \<and> map_option (snd \<circ> hist)
        (histograms
           (fst (recordHistogram (values_hdrhist example_encoder) metricsHTTPHistograms_init
                   '''' 123)) '''')
       = Some [0]
   \<and> (0::int) \<le> 1554 \<and> (1554 :: int) div 1000 \<le> 3600000000
   \<and> map_option (snd \<circ> hist)
        (histograms
           (fst (recordHistogram (values_hdrhist example_encoder) metricsHTTPHistograms_init
                   '''' 1554)) '''')
       = Some [1]"
  using
    C10_truncating_conversion
      [of "values_hdrhist example_encoder" metricsHTTPHistograms_init "''''" 123 _
          example_encoder]
    C10_truncating_conversion
      [of "values_hdrhist example_encoder" metricsHTTPHistograms_init "''''" 1554
          "(\<lparr>LowestDiscernible = 1, HighestTrackable = 3600000000, SigFigs = 2\<rparr>, [1])"
          example_encoder]
  by (simp add: metricsHTTPHistograms_init_def recordHistogram_entry_def values_hdrhist_def
      int32_def metricsHistPrecisionDefault_def)

section \<open>Properties of processing a span message\<close>













section \<open>Properties of writing histograms into the message\<close>







end
